theory Spec2Isabelle
  imports Complex_Main
begin

section \<open>Data model\<close>

text \<open>
  The complaint controller (\<^verbatim>\<open>src/controllers/complaintController.js\<close>) works on four
  collections of documents: users, complaints, district departments and forwarding
  records. A collection is a list of documents in storage order; \<^verbatim>\<open>findOne\<close> returns the
  first document that matches. Object ids are natural numbers, instants are integers
  (milliseconds since the epoch), strings are HOL strings.

  Field names carry a prefix (\<open>u_\<close>, \<open>c_\<close>, \<open>d_\<close>, \<open>f_\<close>) because several documents have
  fields of the same name (\<^verbatim>\<open>_id\<close>, \<^verbatim>\<open>district\<close>, \<^verbatim>\<open>email\<close>).
\<close>

type_synonym objectId = nat
type_synonym instant = int

text \<open>
  Modelled from the spec: the Mongoose schema of a complaint (\<^verbatim>\<open>models/Complaint.js\<close>) is
  not part of the sources. The spec gives the status as one of three enumerated values,
  with \<open>PENDING\<close> the initial one.
\<close>

datatype status = PENDING | IN_PROGRESS | RESOLVED

record user =
  u_id :: objectId
  u_role :: string
  u_province :: string
  u_district :: string
  u_institutionName :: string
  u_email :: string
  u_phone :: string

record complaint =
  c_id :: objectId
  c_trackingNumber :: string
  c_title :: string
  c_description :: string
  c_category :: string
  c_province :: string
  c_district :: string
  c_citizenId :: objectId
  c_institutionId :: objectId
  c_assignedDepartment :: objectId
  c_status :: status
  c_submissionDate :: instant
  c_resolutionDeadline :: instant
  c_resolutionDate :: "instant option"

record department =
  d_id :: objectId
  d_name :: string
  d_district :: string
  d_email :: string
  d_phone :: string

record forwardingRecord =
  f_id :: objectId
  f_complaintId :: objectId
  f_fromInstitutionId :: objectId
  f_toDepartmentId :: objectId
  f_forwardingNote :: string
  f_forwardedAt :: instant

text \<open>
  The kinds of event of \<^verbatim>\<open>sendNotification\<close>; \<open>EV_RESOLVED\<close> is the event \<^verbatim>\<open>'RESOLVED'\<close>,
  renamed apart from the status.
\<close>

datatype eventKind = SUBMITTED | EV_RESOLVED | DEADLINE_SET | COMPLAINT_FORWARDED

text \<open>
  The state is the four collections, and the log of the notifications that were delivered
  (event kind and complaint id), which makes the outcome of a dispatch visible.
\<close>

record state =
  users :: "user list"
  complaints :: "complaint list"
  departments :: "department list"
  forwardingRecords :: "forwardingRecord list"
  delivered :: "(eventKind \<times> objectId) list"

text \<open>
  The local time zone of the server, as the two offsets (in milliseconds) that a
  \<^verbatim>\<open>Date\<close> uses: the offset in force at an instant, and the offset by which a local
  clock reading is turned back into an instant.
\<close>

record timeZone =
  offsetAtUtc :: "instant \<Rightarrow> int"
  offsetAtLocal :: "instant \<Rightarrow> int"

text \<open>
  The awaited calls of \<^verbatim>\<open>forwardComplaint\<close> that can reject, which sends the handler to
  its \<^verbatim>\<open>catch\<close>: the two lookups, the two saves and the \<^verbatim>\<open>populate\<close> chain of the
  response.
\<close>

datatype forwardStep = FindComplaint | FindDepartment | SaveRecord | SaveComplaint | Populate

text \<open>
  What a request gets from outside the controller: the clock (\<^verbatim>\<open>new Date()\<close>) and the
  time zone, the object id and tracking number the storage layer gives a new document,
  whether \<^verbatim>\<open>sendNotification\<close> delivers an event of a given kind or throws, and which
  awaited calls of a forward reject.
\<close>

record env =
  now :: instant
  zone :: timeZone
  newId :: objectId
  newTrackingNumber :: string
  notifyOk :: "eventKind \<Rightarrow> bool"
  throws :: "forwardStep \<Rightarrow> bool"

section \<open>Deadline policy\<close>

definition msPerDay :: int where
  "msPerDay = 1000 * 60 * 60 * 24"

text \<open>
  \<^verbatim>\<open>LocalTime(t)\<close> and \<^verbatim>\<open>UTC(t)\<close> of the language: a \<^verbatim>\<open>Date\<close> holds an instant and reads
  and writes its calendar fields in local time.
\<close>

definition localTime :: "timeZone \<Rightarrow> instant \<Rightarrow> instant" where
  "localTime tz t = t + offsetAtUtc tz t"

definition utcOfLocal :: "timeZone \<Rightarrow> instant \<Rightarrow> instant" where
  "utcOfLocal tz l = l - offsetAtLocal tz l"

text \<open>
  \<^verbatim>\<open>date.setDate(date.getDate() + n)\<close>: the local calendar day moves by \<open>n\<close>, the local
  time of day stays, and the new local reading is turned back into an instant.
  Instants stay within the range of a \<^verbatim>\<open>Date\<close>.
\<close>

definition setDatePlus :: "timeZone \<Rightarrow> instant \<Rightarrow> int \<Rightarrow> instant" where
  "setDatePlus tz date n = utcOfLocal tz (localTime tz date + n * msPerDay)"

text \<open>\<^verbatim>\<open>calculateResolutionDeadline\<close>: the \<^verbatim>\<open>switch\<close> on the category, started from the clock.\<close>

definition calculateResolutionDeadline :: "timeZone \<Rightarrow> instant \<Rightarrow> string \<Rightarrow> instant" where
  "calculateResolutionDeadline tz date category =
     (if category = ''WATER'' \<or> category = ''ELECTRICITY'' then setDatePlus tz date 3
      else if category = ''PUBLIC_SAFETY'' then setDatePlus tz date 2
      else if category = ''ROADS'' \<or> category = ''SANITATION'' then setDatePlus tz date 7
      else setDatePlus tz date 14)"

section \<open>Storage\<close>

text \<open>\<^verbatim>\<open>Complaint.findById(id)\<close>.\<close>

definition findComplaintById :: "complaint list \<Rightarrow> objectId \<Rightarrow> complaint option" where
  "findComplaintById cs i = find (\<lambda>c. c_id c = i) cs"

text \<open>\<^verbatim>\<open>Complaint.findOne({ _id: id, institutionId: req.user._id })\<close>.\<close>

definition findOwnedComplaint :: "complaint list \<Rightarrow> objectId \<Rightarrow> objectId \<Rightarrow> complaint option" where
  "findOwnedComplaint cs i inst = find (\<lambda>c. c_id c = i \<and> c_institutionId c = inst) cs"

text \<open>\<^verbatim>\<open>DistrictDepartment.findById(departmentId)\<close>.\<close>

definition findDepartmentById :: "department list \<Rightarrow> objectId \<Rightarrow> department option" where
  "findDepartmentById ds i = find (\<lambda>d. d_id d = i) ds"

text \<open>\<^verbatim>\<open>complaint.save()\<close> of a loaded document: the stored document of that id is replaced.\<close>

definition saveComplaint :: "complaint \<Rightarrow> complaint list \<Rightarrow> complaint list" where
  "saveComplaint c cs = map (\<lambda>x. if c_id x = c_id c then c else x) cs"

text \<open>
  \<^verbatim>\<open>sendNotification(kind, ...)\<close> inside \<^verbatim>\<open>try\<close>: the event is delivered and logged, or
  the call throws and nothing is logged.
\<close>

definition sendNotification :: "env \<Rightarrow> eventKind \<Rightarrow> objectId \<Rightarrow> state \<Rightarrow> state" where
  "sendNotification e k i s =
     (if notifyOk e k then s\<lparr>delivered := delivered s @ [(k, i)]\<rparr> else s)"

section \<open>Responses\<close>

text \<open>
  A response is the HTTP status with its message, or the payload of a success:
  \<^item> \<open>ValidationFailed\<close>: 400 with the errors of \<^verbatim>\<open>validationResult(req)\<close>;
  \<^item> \<open>Failure\<close>: any other error status, with its message;
  \<^item> \<open>Submitted\<close>: 201, the complaint and \<^verbatim>\<open>notificationSent\<close>;
  \<^item> \<open>DeadlineUpdated\<close>: 200 and the complaint;
  \<^item> \<open>StatusUpdated\<close>: 200, the complaint, \<^verbatim>\<open>notificationStatus.success\<close> and the types
    of the notification errors;
  \<^item> \<open>Forwarded\<close>: 200, the forwarding record and \<^verbatim>\<open>emailSent\<close>.
\<close>

datatype response =
    ValidationFailed "string list"
  | Failure nat string
  | Submitted complaint bool
  | DeadlineUpdated complaint
  | StatusUpdated complaint bool "string list"
  | Forwarded forwardingRecord bool

section \<open>Assignment\<close>

text \<open>
  \<^verbatim>\<open>findAppropriateInstitution\<close>: the first institution of the province and district,
  else the first institution of the province. The category is not looked at.
\<close>

definition findAppropriateInstitution :: "user list \<Rightarrow> string \<Rightarrow> string \<Rightarrow> string \<Rightarrow> user option" where
  "findAppropriateInstitution us category province district =
     (case find (\<lambda>u. u_role u = ''institution'' \<and> u_province u = province
                      \<and> u_district u = district) us of
        Some institution \<Rightarrow> Some institution
      | None \<Rightarrow> find (\<lambda>u. u_role u = ''institution'' \<and> u_province u = province) us)"

text \<open>
  Modelled from the spec: the schemas of the complaint and of the forwarding record are
  not part of the sources. A new complaint starts in the initial status \<open>PENDING\<close>; a new
  complaint and a new forwarding record carry the instant of their creation (the
  submission date, the forwarding timestamp).
\<close>

definition initialStatus :: status where
  "initialStatus = PENDING"

definition createdAt :: "env \<Rightarrow> instant" where
  "createdAt e = now e"

text \<open>
  \<^verbatim>\<open>submitComplaint\<close>: validation, the role check, the assignment, then the new complaint
  with its deadline and the notification of the citizen. The controller sets no
  resolution date.
\<close>

definition submitComplaint ::
  "env \<Rightarrow> state \<Rightarrow> user \<Rightarrow> string list \<Rightarrow> string \<Rightarrow> string \<Rightarrow> string \<Rightarrow> string \<Rightarrow> string
     \<Rightarrow> response \<times> state" where
  "submitComplaint e s reqUser errors title description category province district =
     (if errors \<noteq> [] then (ValidationFailed errors, s)
      else if u_role reqUser \<noteq> ''citizen'' then
        (Failure 403 ''Only citizens can submit complaints'', s)
      else case findAppropriateInstitution (users s) category province district of
        None \<Rightarrow> (Failure 404 ''No appropriate institution found to handle this complaint'', s)
      | Some institution \<Rightarrow>
          let c = \<lparr> c_id = newId e, c_trackingNumber = newTrackingNumber e,
                    c_title = title, c_description = description, c_category = category,
                    c_province = province, c_district = district,
                    c_citizenId = u_id reqUser, c_institutionId = u_id institution,
                    c_assignedDepartment = u_id institution, c_status = initialStatus,
                    c_submissionDate = createdAt e,
                    c_resolutionDeadline = calculateResolutionDeadline (zone e) (now e) category,
                    c_resolutionDate = None \<rparr>;
              s1 = s\<lparr>complaints := complaints s @ [c]\<rparr>;
              s2 = sendNotification e SUBMITTED (c_id c) s1
          in (Submitted c (notifyOk e SUBMITTED), s2))"

section \<open>Lifecycle\<close>

text \<open>
  \<^verbatim>\<open>updateComplaintDeadline\<close>. The body's \<^verbatim>\<open>newDeadline\<close> is \<open>None\<close> when it is missing
  (or falsy), else the instant it denotes. The deadline is validated before the
  complaint is looked up.
\<close>

definition updateComplaintDeadline ::
  "env \<Rightarrow> state \<Rightarrow> user \<Rightarrow> objectId \<Rightarrow> instant option \<Rightarrow> response \<times> state" where
  "updateComplaintDeadline e s reqUser i newDeadline =
     (case newDeadline of
        None \<Rightarrow> (Failure 400 ''Invalid deadline. Deadline must be a future date'', s)
      | Some d \<Rightarrow>
          if d < now e then
            (Failure 400 ''Invalid deadline. Deadline must be a future date'', s)
          else case findOwnedComplaint (complaints s) i (u_id reqUser) of
            None \<Rightarrow>
              (Failure 404 ''Complaint not found or you do not have permission to update it'', s)
          | Some c \<Rightarrow>
              let c1 = c\<lparr>c_resolutionDeadline := d\<rparr>
              in (DeadlineUpdated c1, s\<lparr>complaints := saveComplaint c1 (complaints s)\<rparr>))"

text \<open>
  \<^verbatim>\<open>updateComplaintStatus\<close>. The status is assigned first; the \<open>RESOLVED\<close> block stamps the
  resolution date with the clock and notifies; the deadline block runs when the body has
  a \<^verbatim>\<open>resolutionDeadline\<close>, stores it as it is and notifies; then the complaint is saved.
\<close>

definition updateComplaintStatus ::
  "env \<Rightarrow> state \<Rightarrow> user \<Rightarrow> objectId \<Rightarrow> status \<Rightarrow> instant option \<Rightarrow> response \<times> state" where
  "updateComplaintStatus e s reqUser complaintId newStatus resolutionDeadline =
     (if u_role reqUser \<noteq> ''institution'' then
        (Failure 403 ''Only institutions can update complaint status'', s)
      else case findComplaintById (complaints s) complaintId of
        None \<Rightarrow> (Failure 404 ''Complaint not found'', s)
      | Some c \<Rightarrow>
          if c_institutionId c \<noteq> u_id reqUser then
            (Failure 403 ''Not authorized to update this complaint'', s)
          else
            let c1 = c\<lparr>c_status := newStatus\<rparr>;
                c2 = (if newStatus = RESOLVED then c1\<lparr>c_resolutionDate := Some (now e)\<rparr> else c1);
                s1 = (if newStatus = RESOLVED then sendNotification e EV_RESOLVED (c_id c) s else s);
                errs1 = (if newStatus = RESOLVED \<and> \<not> notifyOk e EV_RESOLVED
                         then [''resolved''] else []);
                c3 = (case resolutionDeadline of
                        Some d \<Rightarrow> c2\<lparr>c_resolutionDeadline := d\<rparr> | None \<Rightarrow> c2);
                s2 = (case resolutionDeadline of
                        Some d \<Rightarrow> sendNotification e DEADLINE_SET (c_id c) s1 | None \<Rightarrow> s1);
                errs2 = (if resolutionDeadline \<noteq> None \<and> \<not> notifyOk e DEADLINE_SET
                         then errs1 @ [''deadline''] else errs1)
            in (StatusUpdated c3 (length errs2 = 0) errs2,
                s2\<lparr>complaints := saveComplaint c3 (complaints s2)\<rparr>))"

section \<open>Forwarding\<close>

text \<open>
  \<^verbatim>\<open>forwardComplaint\<close>. The record is saved, then the complaint; the notification is sent
  inside a \<^verbatim>\<open>try\<close> whose \<^verbatim>\<open>catch\<close> only logs; the record of the response is populated,
  and the response carries the literal \<^verbatim>\<open>emailSent: true\<close>. An awaited call that rejects
  ends the handler in its outer \<^verbatim>\<open>catch\<close> with the 500 response, and what was saved
  before stays saved.
\<close>

definition forwardingError :: response where
  "forwardingError = Failure 500 ''Error forwarding complaint''"

definition forwardComplaint ::
  "env \<Rightarrow> state \<Rightarrow> user \<Rightarrow> string list \<Rightarrow> objectId \<Rightarrow> objectId \<Rightarrow> string \<Rightarrow> response \<times> state" where
  "forwardComplaint e s reqUser errors complaintId departmentId forwardingNote =
     (if errors \<noteq> [] then (ValidationFailed errors, s)
      else if throws e FindComplaint then (forwardingError, s)
      else case findOwnedComplaint (complaints s) complaintId (u_id reqUser) of
        None \<Rightarrow>
          (Failure 404 ''Complaint not found or you do not have permission to forward it'', s)
      | Some c \<Rightarrow>
          if throws e FindDepartment then (forwardingError, s)
          else
          (case findDepartmentById (departments s) departmentId of
             None \<Rightarrow> (Failure 404 ''District department not found'', s)
           | Some d \<Rightarrow>
               if d_district d \<noteq> c_district c then
                 (Failure 400 ''Department must be in the same district as the complaint'', s)
               else
                 let r = \<lparr> f_id = newId e, f_complaintId = c_id c,
                           f_fromInstitutionId = u_id reqUser, f_toDepartmentId = d_id d,
                           f_forwardingNote = forwardingNote, f_forwardedAt = createdAt e \<rparr>;
                     s1 = s\<lparr>forwardingRecords := forwardingRecords s @ [r]\<rparr>;
                     c1 = c\<lparr>c_assignedDepartment := d_id d, c_status := IN_PROGRESS\<rparr>;
                     s2 = s1\<lparr>complaints := saveComplaint c1 (complaints s1)\<rparr>;
                     s3 = sendNotification e COMPLAINT_FORWARDED (c_id c) s2
                 in if throws e SaveRecord then (forwardingError, s)
                    else if throws e SaveComplaint then (forwardingError, s1)
                    else if throws e Populate then (forwardingError, s3)
                    else (Forwarded r True, s3)))"

section \<open>Sequences of lifecycle operations\<close>

datatype request =
    UpdateStatus user objectId status "instant option"
  | UpdateDeadline user objectId "instant option"
  | Forward user "string list" objectId objectId string

fun handle :: "env \<Rightarrow> state \<Rightarrow> request \<Rightarrow> response \<times> state" where
  "handle e s (UpdateStatus u i st dl) = updateComplaintStatus e s u i st dl"
| "handle e s (UpdateDeadline u i dl) = updateComplaintDeadline e s u i dl"
| "handle e s (Forward u errs i dep note) = forwardComplaint e s u errs i dep note"


section \<open>Performance report\<close>

text \<open>
  \<^verbatim>\<open>getPerformance\<close> (the administration controller) runs an aggregation pipeline over the
  complaints: \<^verbatim>\<open>$match\<close>, \<^verbatim>\<open>$group\<close> by institution, \<^verbatim>\<open>$lookup\<close> of the institution with
  \<^verbatim>\<open>$unwind\<close>, \<^verbatim>\<open>$project\<close> and \<^verbatim>\<open>$sort\<close>. The counters are integers; the rates are
  double-precision numbers. The arithmetic of doubles is a parameter of the model: the
  conversion of a counter, the division, the multiplication and the comparison of the
  sort, on a type \<open>'d\<close> of doubles. The pipeline's \<^verbatim>\<open>$divide\<close> fails on a zero divisor, and
  a failed stage fails the whole aggregation. The average resolution time of the
  \<^verbatim>\<open>$group\<close> stage plays no part in the rates and is left out.
\<close>

record 'd arith =
  dbl :: "nat \<Rightarrow> 'd"
  ddiv :: "'d \<Rightarrow> 'd \<Rightarrow> 'd"
  dmul :: "'d \<Rightarrow> 'd \<Rightarrow> 'd"
  dge :: "'d \<Rightarrow> 'd \<Rightarrow> bool"

datatype aggError = DivideByZero

text \<open>\<^verbatim>\<open>$divide\<close> of two counters.\<close>

definition mongoDivide :: "'d arith \<Rightarrow> nat \<Rightarrow> nat \<Rightarrow> aggError + 'd" where
  "mongoDivide ar a b =
     (if b = 0 then Inl DivideByZero else Inr (ddiv ar (dbl ar a) (dbl ar b)))"

record groupDoc =
  g_id :: objectId
  g_totalComplaints :: nat
  g_resolvedComplaints :: nat
  g_resolvedOnTime :: nat

text \<open>
  The condition of the \<^verbatim>\<open>resolvedOnTime\<close> counter: status \<open>RESOLVED\<close> and
  \<^verbatim>\<open>$lte: ['$resolutionDate', '$resolutionDeadline']\<close>, where a missing date compares below
  every date.
\<close>

definition resolvedOnTime :: "complaint \<Rightarrow> bool" where
  "resolvedOnTime c =
     (c_status c = RESOLVED \<and>
      (case c_resolutionDate c of None \<Rightarrow> True | Some t \<Rightarrow> t \<le> c_resolutionDeadline c))"

text \<open>\<^verbatim>\<open>$group\<close>: one document per institution id that occurs among the matched complaints.\<close>

definition groupStage :: "complaint list \<Rightarrow> groupDoc list" where
  "groupStage docs =
     map (\<lambda>i. let members = filter (\<lambda>c. c_institutionId c = i) docs in
            \<lparr> g_id = i,
              g_totalComplaints = length members,
              g_resolvedComplaints = length (filter (\<lambda>c. c_status c = RESOLVED) members),
              g_resolvedOnTime = length (filter resolvedOnTime members) \<rparr>)
         (remdups (map c_institutionId docs))"

text \<open>\<^verbatim>\<open>$lookup\<close> in the users by \<^verbatim>\<open>_id\<close>, then \<^verbatim>\<open>$unwind\<close>: one document per user found.\<close>

definition lookupUnwind :: "user list \<Rightarrow> groupDoc list \<Rightarrow> (groupDoc \<times> user) list" where
  "lookupUnwind us gs = concat (map (\<lambda>g. map (\<lambda>u. (g, u)) (filter (\<lambda>u. u_id u = g_id g) us)) gs)"

record 'd performanceDoc =
  p_id :: objectId
  p_institutionName :: string
  p_district :: string
  p_province :: string
  p_totalComplaints :: nat
  p_resolvedComplaints :: nat
  p_resolvedOnTime :: nat
  p_resolutionRate :: 'd
  p_onTimeResolutionRate :: 'd

text \<open>\<^verbatim>\<open>$project\<close>: the two rates, each a \<^verbatim>\<open>$divide\<close> times 100.\<close>

definition projectStage :: "'d arith \<Rightarrow> groupDoc \<times> user \<Rightarrow> aggError + 'd performanceDoc" where
  "projectStage ar gu =
     (case gu of (g, institution) \<Rightarrow>
        (case mongoDivide ar (g_resolvedComplaints g) (g_totalComplaints g) of
           Inl err \<Rightarrow> Inl err
         | Inr q1 \<Rightarrow>
            (case mongoDivide ar (g_resolvedOnTime g) (max (g_resolvedComplaints g) 1) of
               Inl err \<Rightarrow> Inl err
             | Inr q2 \<Rightarrow>
                 Inr \<lparr> p_id = g_id g,
                       p_institutionName = u_institutionName institution,
                       p_district = u_district institution,
                       p_province = u_province institution,
                       p_totalComplaints = g_totalComplaints g,
                       p_resolvedComplaints = g_resolvedComplaints g,
                       p_resolvedOnTime = g_resolvedOnTime g,
                       p_resolutionRate = dmul ar q1 (dbl ar 100),
                       p_onTimeResolutionRate = dmul ar q2 (dbl ar 100) \<rparr>)))"

text \<open>The documents of a stage, or the first error.\<close>

fun allOrError :: "('e + 'a) list \<Rightarrow> 'e + 'a list" where
  "allOrError [] = Inr []"
| "allOrError (Inl err # xs) = Inl err"
| "allOrError (Inr x # xs) =
     (case allOrError xs of Inl err \<Rightarrow> Inl err | Inr ys \<Rightarrow> Inr (x # ys))"

text \<open>\<^verbatim>\<open>$sort: { onTimeResolutionRate: -1 }\<close>: descending, by insertion.\<close>

fun insertDesc :: "'d arith \<Rightarrow> 'd performanceDoc \<Rightarrow> 'd performanceDoc list \<Rightarrow> 'd performanceDoc list" where
  "insertDesc ar x [] = [x]"
| "insertDesc ar x (y # ys) =
     (if dge ar (p_onTimeResolutionRate x) (p_onTimeResolutionRate y) then x # y # ys
      else y # insertDesc ar x ys)"

definition sortStage :: "'d arith \<Rightarrow> 'd performanceDoc list \<Rightarrow> 'd performanceDoc list" where
  "sortStage ar docs = foldr (insertDesc ar) docs []"

text \<open>
  The pipeline. The \<^verbatim>\<open>$match\<close> stage is a parameter: whichever complaints the time frame
  selects.
\<close>

definition performanceAggregate ::
  "'d arith \<Rightarrow> (complaint \<Rightarrow> bool) \<Rightarrow> state \<Rightarrow> aggError + 'd performanceDoc list" where
  "performanceAggregate ar match s =
     (case allOrError (map (projectStage ar)
             (lookupUnwind (users s) (groupStage (filter match (complaints s))))) of
        Inl err \<Rightarrow> Inl err
      | Inr docs \<Rightarrow> Inr (sortStage ar docs))"

record 'd systemStats =
  totalComplaints :: nat
  totalResolved :: nat
  totalResolvedOnTime :: nat
  systemResolutionRate :: 'd
  systemOnTimeRate :: 'd

text \<open>
  \<^verbatim>\<open>getPerformance\<close>: the report, or the 500 response of the \<^verbatim>\<open>catch\<close> when the aggregation
  throws.
\<close>

definition getPerformance ::
  "'d arith \<Rightarrow> (complaint \<Rightarrow> bool) \<Rightarrow> state
     \<Rightarrow> (nat \<times> string) + ('d systemStats \<times> 'd performanceDoc list)" where
  "getPerformance ar match s =
     (case performanceAggregate ar match s of
        Inl err \<Rightarrow> Inl (500, ''Error fetching performance data'')
      | Inr performance \<Rightarrow>
          let total = sum_list (map p_totalComplaints performance);
              resolved = sum_list (map p_resolvedComplaints performance);
              onTime = sum_list (map p_resolvedOnTime performance)
          in Inr (\<lparr> totalComplaints = total, totalResolved = resolved,
                     totalResolvedOnTime = onTime,
                     systemResolutionRate =
                       (if total \<noteq> 0
                        then dmul ar (ddiv ar (dbl ar resolved) (dbl ar total)) (dbl ar 100)
                        else dbl ar 0),
                     systemOnTimeRate =
                       (if resolved \<noteq> 0
                        then dmul ar (ddiv ar (dbl ar onTime) (dbl ar resolved)) (dbl ar 100)
                        else dbl ar 0) \<rparr>,
                  performance))"

text \<open>
  The document that \<^verbatim>\<open>$project\<close> builds from a group with at least one complaint and its
  institution.
\<close>

definition projected :: "'d arith \<Rightarrow> groupDoc \<times> user \<Rightarrow> 'd performanceDoc" where
  "projected ar gu =
     (case gu of (g, institution) \<Rightarrow>
        \<lparr> p_id = g_id g,
          p_institutionName = u_institutionName institution,
          p_district = u_district institution,
          p_province = u_province institution,
          p_totalComplaints = g_totalComplaints g,
          p_resolvedComplaints = g_resolvedComplaints g,
          p_resolvedOnTime = g_resolvedOnTime g,
          p_resolutionRate =
            dmul ar (ddiv ar (dbl ar (g_resolvedComplaints g)) (dbl ar (g_totalComplaints g)))
              (dbl ar 100),
          p_onTimeResolutionRate =
            dmul ar (ddiv ar (dbl ar (g_resolvedOnTime g))
                       (dbl ar (max (g_resolvedComplaints g) 1)))
              (dbl ar 100) \<rparr>)"

section \<open>Invariants and example data\<close>


text \<open>Every complaint whose status is \<open>RESOLVED\<close> has a resolution date.\<close>

definition resolvedHasDate :: "state \<Rightarrow> bool" where
  "resolvedHasDate s =
     list_all (\<lambda>c. c_status c = RESOLVED \<longrightarrow> c_resolutionDate c \<noteq> None) (complaints s)"


text \<open>
  A small world: one institution and one citizen in Gasabo (Kigali), an institution of
  another district of the province, a department in Gasabo and one in another district,
  and a complaint about water, pending or already resolved at instant 100.
\<close>

definition exInstitution :: user where
  "exInstitution = \<lparr> u_id = 1, u_role = ''institution'', u_province = ''Kigali'',
      u_district = ''Gasabo'', u_institutionName = ''Water board'',
      u_email = ''water@example.org'', u_phone = ''0780000001'' \<rparr>"

definition exProvincial :: user where
  "exProvincial = \<lparr> u_id = 2, u_role = ''institution'', u_province = ''Kigali'',
      u_district = ''Kicukiro'', u_institutionName = ''City office'',
      u_email = ''city@example.org'', u_phone = ''0780000002'' \<rparr>"

definition exCitizen :: user where
  "exCitizen = \<lparr> u_id = 5, u_role = ''citizen'', u_province = ''Kigali'',
      u_district = ''Gasabo'', u_institutionName = [],
      u_email = ''citizen@example.org'', u_phone = ''0780000005'' \<rparr>"

definition exComplaint :: complaint where
  "exComplaint = \<lparr> c_id = 10, c_trackingNumber = ''CMP-10'', c_title = ''No water'',
      c_description = ''Dry tap'', c_category = ''WATER'', c_province = ''Kigali'',
      c_district = ''Gasabo'', c_citizenId = 5, c_institutionId = 1,
      c_assignedDepartment = 1, c_status = PENDING, c_submissionDate = 0,
      c_resolutionDeadline = 259200000, c_resolutionDate = None \<rparr>"

definition exResolved :: complaint where
  "exResolved = exComplaint\<lparr> c_status := RESOLVED, c_resolutionDate := Some 100 \<rparr>"

definition exDepartment :: department where
  "exDepartment = \<lparr> d_id = 7, d_name = ''Gasabo water unit'', d_district = ''Gasabo'',
      d_email = ''unit@example.org'', d_phone = ''0780000007'' \<rparr>"

definition exFarDepartment :: department where
  "exFarDepartment = \<lparr> d_id = 8, d_name = ''Huye water unit'', d_district = ''Huye'',
      d_email = ''huye@example.org'', d_phone = ''0780000008'' \<rparr>"

definition exState :: state where
  "exState = \<lparr> users = [exCitizen, exProvincial, exInstitution], complaints = [exComplaint],
      departments = [exDepartment, exFarDepartment], forwardingRecords = [], delivered = [] \<rparr>"

definition exResolvedState :: state where
  "exResolvedState = exState\<lparr> complaints := [exResolved] \<rparr>"

text \<open>A zone two hours ahead of UTC all year (Kigali).\<close>

definition exZone :: timeZone where
  "exZone = \<lparr> offsetAtUtc = (\<lambda>t. 7200000), offsetAtLocal = (\<lambda>l. 7200000) \<rparr>"


text \<open>
  The collaborators at instant \<open>t\<close>, with every notification delivered or every one
  failing, and no awaited call rejecting; and the same with a rejecting
  \<^verbatim>\<open>populate\<close> chain.
\<close>

definition exEnv :: "instant \<Rightarrow> bool \<Rightarrow> env" where
  "exEnv t ok = \<lparr> now = t, zone = exZone, newId = 50, newTrackingNumber = ''CMP-50'',
                  notifyOk = (\<lambda>k. ok), throws = (\<lambda>step. False) \<rparr>"

definition exEnvPopulateThrows :: "instant \<Rightarrow> env" where
  "exEnvPopulateThrows t = (exEnv t True)\<lparr> throws := (\<lambda>step. step = Populate) \<rparr>"

definition exForwardingRecord :: forwardingRecord where
  "exForwardingRecord = \<lparr> f_id = 50, f_complaintId = 10, f_fromInstitutionId = 1,
      f_toDepartmentId = 7, f_forwardingNote = ''Please take over'', f_forwardedAt = 200 \<rparr>"

text \<open>
  An arithmetic for the examples: exact rationals. On the counters of the examples
  (1 of 2, 1 of 1) the rates 50 and 100 are exact in double precision as well.
\<close>

definition exArith :: "rat arith" where
  "exArith = \<lparr> dbl = of_nat, ddiv = (\<lambda>a b. a / b), dmul = (\<lambda>a b. a * b),
                dge = (\<lambda>a b. b \<le> a) \<rparr>"

text \<open>
  The report over the pending complaint and a second, resolved complaint of the same
  institution, with a window that selects every complaint; the other institution has no
  complaint.
\<close>

definition exWindow :: "complaint \<Rightarrow> bool" where
  "exWindow c = True"

definition exReportState :: state where
  "exReportState = exState\<lparr> complaints := [exComplaint, exResolved\<lparr>c_id := 11\<rparr>] \<rparr>"

definition exRow :: "rat performanceDoc" where
  "exRow = \<lparr> p_id = 1, p_institutionName = ''Water board'', p_district = ''Gasabo'',
      p_province = ''Kigali'', p_totalComplaints = 2, p_resolvedComplaints = 1,
      p_resolvedOnTime = 1, p_resolutionRate = 50, p_onTimeResolutionRate = 100 \<rparr>"

definition exStats :: "rat systemStats" where
  "exStats = \<lparr> totalComplaints = 2, totalResolved = 1, totalResolvedOnTime = 1,
      systemResolutionRate = 50, systemOnTimeRate = 100 \<rparr>"

section \<open>Facts about the storage operations\<close>

lemmas ex_defs = exInstitution_def exProvincial_def exCitizen_def exComplaint_def exResolved_def
  exDepartment_def exFarDepartment_def exState_def exResolvedState_def exEnv_def
  exEnvPopulateThrows_def exForwardingRecord_def exZone_def

lemmas find_defs = findComplaintById_def findOwnedComplaint_def findDepartmentById_def
  saveComplaint_def sendNotification_def initialStatus_def createdAt_def forwardingError_def

lemma find_Some_ex: "\<exists>x\<in>set xs. P x \<Longrightarrow> \<exists>y. find P xs = Some y \<and> y \<in> set xs \<and> P y"
  by (induction xs) auto

lemma find_save:
  "find (\<lambda>x. c_id x = i) cs = Some c \<Longrightarrow> c_id c' = i \<Longrightarrow>
   find (\<lambda>x. c_id x = i) (saveComplaint c' cs) = Some c'"
  by (induction cs) (auto simp: saveComplaint_def split: if_splits)



lemma ids_save [simp]: "map c_id (saveComplaint c cs) = map c_id cs"
  by (induction cs) (auto simp: saveComplaint_def)

lemma complaints_sendNotification [simp]:
  "complaints (sendNotification e k i s) = complaints s"
  by (simp add: sendNotification_def)

lemma findOwned_id:
  "findOwnedComplaint cs i inst = Some c \<Longrightarrow>
   c_id c = i \<and> c_institutionId c = inst \<and> c \<in> set cs"
  unfolding findOwnedComplaint_def by (induction cs) (auto split: if_splits)

lemma findById_id: "findComplaintById cs i = Some c \<Longrightarrow> c_id c = i \<and> c \<in> set cs"
  unfolding findComplaintById_def by (induction cs) (auto split: if_splits)

lemma findById_save:
  "findComplaintById cs i = Some c \<Longrightarrow> c_id c' = i \<Longrightarrow>
   findComplaintById (saveComplaint c' cs) i = Some c'"
  unfolding findComplaintById_def by (rule find_save)

lemma findById_exists:
  "c \<in> set cs \<Longrightarrow> c_id c = i \<Longrightarrow> \<exists>c0. findComplaintById cs i = Some c0"
  unfolding findComplaintById_def by (induction cs) auto

lemma findDept_id: "findDepartmentById ds i = Some d \<Longrightarrow> d_id d = i \<and> d \<in> set ds"
  unfolding findDepartmentById_def by (induction ds) (auto split: if_splits)

lemma findOwned_None_iff:
  "findOwnedComplaint cs i inst = None \<longleftrightarrow>
   \<not> (\<exists>c\<in>set cs. c_id c = i \<and> c_institutionId c = inst)"
  unfolding findOwnedComplaint_def by (auto simp: find_None_iff)

section \<open>Facts about single operations\<close>




lemma resolvedHasDate_submitComplaint:
  "resolvedHasDate s \<Longrightarrow>
   resolvedHasDate (snd (submitComplaint e s u errs title descr cat p d))"
  unfolding resolvedHasDate_def submitComplaint_def
  by (auto simp: Let_def initialStatus_def split: option.splits)








text \<open>
  The deadline update on a complaint of the acting institution: refused when the deadline
  is before the clock, stored otherwise (the clock's own instant included).
\<close>

lemma updateComplaintDeadline_owned:
  assumes "findOwnedComplaint (complaints s) i (u_id u) = Some c"
  shows "updateComplaintDeadline e s u i (Some d) =
           (if d < now e then (Failure 400 ''Invalid deadline. Deadline must be a future date'', s)
            else (DeadlineUpdated (c\<lparr>c_resolutionDeadline := d\<rparr>),
                  s\<lparr>complaints := saveComplaint (c\<lparr>c_resolutionDeadline := d\<rparr>) (complaints s)\<rparr>))"
  using assms by (simp add: updateComplaintDeadline_def Let_def)

text \<open>
  The flags of the responses: the status update reports what the dispatches did, the
  forward reports \<open>True\<close> whatever the dispatch did, and its response does not depend on
  the dispatch at all.
\<close>

lemma updateComplaintStatus_flag:
  assumes "updateComplaintStatus e s u i st dl = (StatusUpdated c ok errs, s')"
  shows "ok = ((st = RESOLVED \<longrightarrow> notifyOk e EV_RESOLVED) \<and> (dl \<noteq> None \<longrightarrow> notifyOk e DEADLINE_SET))"
  using assms
  by (auto simp: updateComplaintStatus_def Let_def split: if_splits option.splits)

lemma forwardComplaint_flag:
  assumes "forwardComplaint e s u errs i dep note = (Forwarded r flag, s')"
  shows "flag"
  using assms
  by (auto simp: forwardComplaint_def forwardingError_def Let_def
      split: if_splits option.splits)

text \<open>
  The forward succeeds as soon as its three checks pass and no awaited call rejects,
  whatever the status of the complaint.
\<close>

lemma forwardComplaint_succeeds:
  assumes "findOwnedComplaint (complaints s) i (u_id u) = Some c"
    and "findDepartmentById (departments s) dep = Some d"
    and "d_district d = c_district c"
    and "\<forall>step. \<not> throws e step"
  shows "\<exists>r s'. forwardComplaint e s u [] i dep note = (Forwarded r True, s')"
  using assms by (simp add: forwardComplaint_def Let_def)

text \<open>
  A rejection after the saves: the \<^verbatim>\<open>populate\<close> chain of the response rejects, the answer
  is the 500 response, and the forwarding record and the forwarded complaint are stored.
\<close>

lemma forwardComplaint_late_failure:
  "forwardComplaint (exEnvPopulateThrows 200) exState exInstitution [] 10 7 ''Please take over''
     = (Failure 500 ''Error forwarding complaint'',
        exState\<lparr> forwardingRecords := [exForwardingRecord],
          complaints := [exComplaint\<lparr>c_assignedDepartment := 7, c_status := IN_PROGRESS\<rparr>],
          delivered := [(COMPLAINT_FORWARDED, 10)] \<rparr>)"
  by (simp add: ex_defs find_defs forwardComplaint_def Let_def)

lemma forwardComplaint_response_notify:
  "fst (forwardComplaint (e\<lparr>notifyOk := f\<rparr>) s u errs i dep note) =
   fst (forwardComplaint (e\<lparr>notifyOk := g\<rparr>) s u errs i dep note)"
  by (simp add: forwardComplaint_def createdAt_def Let_def split: option.splits)



section \<open>Facts about the aggregation\<close>

lemma groupStage_ids: "map g_id (groupStage docs) = remdups (map c_institutionId docs)"
  by (simp add: groupStage_def Let_def comp_def)

lemma groupStage_member:
  assumes "g \<in> set (groupStage docs)"
  shows "0 < g_totalComplaints g
     \<and> g_totalComplaints g = length (filter (\<lambda>c. c_institutionId c = g_id g) docs)
     \<and> g_resolvedComplaints g =
         length (filter (\<lambda>c. c_status c = RESOLVED)
                   (filter (\<lambda>c. c_institutionId c = g_id g) docs))"
proof -
  from assms obtain i where i: "i \<in> set (map c_institutionId docs)"
    and g: "g = \<lparr> g_id = i,
              g_totalComplaints = length (filter (\<lambda>c. c_institutionId c = i) docs),
              g_resolvedComplaints = length (filter (\<lambda>c. c_status c = RESOLVED)
                                        (filter (\<lambda>c. c_institutionId c = i) docs)),
              g_resolvedOnTime = length (filter resolvedOnTime
                                        (filter (\<lambda>c. c_institutionId c = i) docs)) \<rparr>"
    by (auto simp: groupStage_def Let_def)
  from i obtain c where "c \<in> set docs" "c_institutionId c = i" by auto
  then have "c \<in> set (filter (\<lambda>c. c_institutionId c = i) docs)" by simp
  then have "0 < length (filter (\<lambda>c. c_institutionId c = i) docs)"
    by (rule length_pos_if_in_set)
  with g show ?thesis by simp
qed

lemma projectStage_projected:
  assumes "0 < g_totalComplaints g"
  shows "projectStage ar (g, u) = Inr (projected ar (g, u))"
  using assms by (simp add: projectStage_def projected_def mongoDivide_def)

lemma allOrError_map:
  "\<forall>x\<in>set xs. f x = Inr (h x) \<Longrightarrow> allOrError (map f xs) = Inr (map h xs)"
  by (induction xs) simp_all

lemma lookupUnwind_member: "(g, u) \<in> set (lookupUnwind us gs) \<Longrightarrow> g \<in> set gs"
  by (auto simp: lookupUnwind_def)

text \<open>The sort keeps the documents: the same ones, each as often as before.\<close>

lemma set_insertDesc: "set (insertDesc ar x xs) = insert x (set xs)"
  by (induction xs) auto

lemma set_sortStage: "set (sortStage ar xs) = set xs"
  unfolding sortStage_def by (induction xs) (simp_all add: set_insertDesc)

lemma count_insertDesc:
  "length (filter P (insertDesc ar x xs)) = length (filter P (x # xs))"
  by (induction xs) auto

lemma count_sortStage: "length (filter P (sortStage ar xs)) = length (filter P xs)"
  unfolding sortStage_def by (induction xs) (simp_all add: count_insertDesc)

text \<open>
  After the lookup, an institution id has as many documents as it has user documents
  when it has a group, and none otherwise.
\<close>

lemma count_lookupUnwind:
  assumes "distinct (map g_id gs)"
  shows "length (filter (\<lambda>gu. g_id (fst gu) = i) (lookupUnwind us gs)) =
           (if i \<in> set (map g_id gs) then length (filter (\<lambda>u. u_id u = i) us) else 0)"
  using assms
proof (induction gs)
  case Nil
  show ?case by (simp add: lookupUnwind_def)
next
  case (Cons g gs)
  have step: "lookupUnwind us (g # gs) =
      map (\<lambda>u. (g, u)) (filter (\<lambda>u. u_id u = g_id g) us) @ lookupUnwind us gs"
    by (simp add: lookupUnwind_def)
  have first: "length (filter (\<lambda>gu. g_id (fst gu) = i)
                  (map (\<lambda>u. (g, u)) (filter (\<lambda>u. u_id u = g_id g) us))) =
               (if g_id g = i then length (filter (\<lambda>u. u_id u = i) us) else 0)"
    by (simp add: filter_map comp_def)
  from Cons have rest: "length (filter (\<lambda>gu. g_id (fst gu) = i) (lookupUnwind us gs)) =
           (if i \<in> set (map g_id gs) then length (filter (\<lambda>u. u_id u = i) us) else 0)"
    by simp
  from Cons.prems have notin: "g_id g \<notin> set (map g_id gs)" by simp
  show ?case
  proof (cases "g_id g = i")
    case True
    with notin have "i \<notin> set (map g_id gs)" by simp
    with True step first rest show ?thesis by simp
  next
    case False
    with step first rest show ?thesis by simp
  qed
qed

text \<open>The aggregation never fails, and its documents are the projected ones, sorted.\<close>

lemma performanceAggregate_eq:
  "performanceAggregate ar match s =
     Inr (sortStage ar (map (projected ar)
            (lookupUnwind (users s) (groupStage (filter match (complaints s))))))"
proof -
  let ?pairs = "lookupUnwind (users s) (groupStage (filter match (complaints s)))"
  have "\<forall>gu\<in>set ?pairs. projectStage ar gu = Inr (projected ar gu)"
  proof
    fix gu assume gu: "gu \<in> set ?pairs"
    obtain g u where p: "gu = (g, u)" by (cases gu)
    with gu have "g \<in> set (groupStage (filter match (complaints s)))"
      using lookupUnwind_member by blast
    then have "0 < g_totalComplaints g" using groupStage_member by blast
    with p show "projectStage ar gu = Inr (projected ar gu)"
      by (simp add: projectStage_projected)
  qed
  then have "allOrError (map (projectStage ar) ?pairs) = Inr (map (projected ar) ?pairs)"
    by (rule allOrError_map)
  then show ?thesis by (simp add: performanceAggregate_def)
qed

lemma projected_fields:
  "p_id (projected ar (g, u)) = g_id g
   \<and> p_totalComplaints (projected ar (g, u)) = g_totalComplaints g
   \<and> p_resolvedComplaints (projected ar (g, u)) = g_resolvedComplaints g
   \<and> p_resolutionRate (projected ar (g, u)) =
       dmul ar (ddiv ar (dbl ar (g_resolvedComplaints g)) (dbl ar (g_totalComplaints g)))
         (dbl ar 100)"
  by (simp add: projected_def)

lemma row_facts:
  assumes "p \<in> set (map (projected ar)
              (lookupUnwind (users s) (groupStage (filter match (complaints s)))))"
  shows "0 < p_totalComplaints p
     \<and> p_totalComplaints p =
         length (filter (\<lambda>c. match c \<and> c_institutionId c = p_id p) (complaints s))
     \<and> p_resolvedComplaints p =
         length (filter (\<lambda>c. match c \<and> c_institutionId c = p_id p \<and> c_status c = RESOLVED)
                   (complaints s))
     \<and> p_resolutionRate p =
         dmul ar (ddiv ar (dbl ar (p_resolvedComplaints p)) (dbl ar (p_totalComplaints p)))
           (dbl ar 100)"
proof -
  from assms obtain g u
    where gu: "(g, u) \<in> set (lookupUnwind (users s) (groupStage (filter match (complaints s))))"
      and p: "p = projected ar (g, u)"
    by auto
  from gu have "g \<in> set (groupStage (filter match (complaints s)))"
    by (rule lookupUnwind_member)
  then have g: "0 < g_totalComplaints g
     \<and> g_totalComplaints g =
         length (filter (\<lambda>c. c_institutionId c = g_id g) (filter match (complaints s)))
     \<and> g_resolvedComplaints g =
         length (filter (\<lambda>c. c_status c = RESOLVED)
                   (filter (\<lambda>c. c_institutionId c = g_id g) (filter match (complaints s))))"
    by (rule groupStage_member)
  then have pos: "0 < g_totalComplaints g" by blast
  have f1: "filter (\<lambda>c. c_institutionId c = g_id g) (filter match (complaints s))
            = filter (\<lambda>c. match c \<and> c_institutionId c = g_id g) (complaints s)"
    by simp
  have f2: "filter (\<lambda>c. c_status c = RESOLVED)
              (filter (\<lambda>c. c_institutionId c = g_id g) (filter match (complaints s)))
            = filter (\<lambda>c. match c \<and> c_institutionId c = g_id g \<and> c_status c = RESOLVED)
                (complaints s)"
    by (simp add: conj_ac)
  from g f1 have tot: "g_totalComplaints g =
      length (filter (\<lambda>c. match c \<and> c_institutionId c = g_id g) (complaints s))"
    by (simp only:)
  from g f2 have res: "g_resolvedComplaints g =
      length (filter (\<lambda>c. match c \<and> c_institutionId c = g_id g \<and> c_status c = RESOLVED)
                (complaints s))"
    by (simp only:)
  note pf = projected_fields [of ar g u]
  from pf have pid: "p_id p = g_id g" and ptot: "p_totalComplaints p = g_totalComplaints g"
    and pres: "p_resolvedComplaints p = g_resolvedComplaints g"
    and prate: "p_resolutionRate p =
       dmul ar (ddiv ar (dbl ar (g_resolvedComplaints g)) (dbl ar (g_totalComplaints g)))
         (dbl ar 100)"
    unfolding p by blast+
  show ?thesis
    unfolding pid ptot pres prate using pos tot res by blast
qed

lemma row_count:
  "length (filter (\<lambda>p. p_id p = i)
      (map (projected ar) (lookupUnwind (users s) (groupStage (filter match (complaints s))))))
   = (if \<exists>c\<in>set (complaints s). match c \<and> c_institutionId c = i
      then length (filter (\<lambda>u. u_id u = i) (users s)) else 0)"
proof -
  let ?gs = "groupStage (filter match (complaints s))"
  have ids: "map g_id ?gs = remdups (map c_institutionId (filter match (complaints s)))"
    by (rule groupStage_ids)
  then have d: "distinct (map g_id ?gs)" by simp
  have mem: "i \<in> set (map g_id ?gs) \<longleftrightarrow>
               (\<exists>c\<in>set (complaints s). match c \<and> c_institutionId c = i)"
    unfolding ids by auto
  have "filter (\<lambda>p. p_id p = i) (map (projected ar) (lookupUnwind (users s) ?gs))
        = map (projected ar) (filter (\<lambda>gu. g_id (fst gu) = i) (lookupUnwind (users s) ?gs))"
    by (simp add: filter_map comp_def projected_def split_def)
  then have "length (filter (\<lambda>p. p_id p = i) (map (projected ar) (lookupUnwind (users s) ?gs)))
        = length (filter (\<lambda>gu. g_id (fst gu) = i) (lookupUnwind (users s) ?gs))"
    by simp
  also have "\<dots> = (if i \<in> set (map g_id ?gs)
                    then length (filter (\<lambda>u. u_id u = i) (users s)) else 0)"
    using d by (rule count_lookupUnwind)
  finally show ?thesis unfolding mem .
qed

section \<open>Lifecycle: results\<close>




text \<open>
  C2 (as amended). A status update to \<open>RESOLVED\<close> by the owning institution, on any
  complaint (an already resolved one included), succeeds, leaves the status \<open>RESOLVED\<close>
  and sets the resolution date to the instant of the update.
\<close>

theorem updateComplaintStatus_resolved_stamps:
  assumes "u_role u = ''institution''"
    and "findComplaintById (complaints s) i = Some c"
    and "c_institutionId c = u_id u"
  shows "\<exists>c' ok errs s'.
           updateComplaintStatus e s u i RESOLVED dl = (StatusUpdated c' ok errs, s')
           \<and> c_status c' = RESOLVED \<and> c_resolutionDate c' = Some (now e)
           \<and> findComplaintById (complaints s') i = Some c'"
proof -
  from assms(2) have cid: "c_id c = i" by (simp add: findById_id)
  show ?thesis
    using assms cid
    by (cases dl) (simp_all add: updateComplaintStatus_def Let_def findById_save)
qed

theorem updateComplaintStatus_resolved_stamps_witness:
  "u_role exInstitution = ''institution''
   \<and> findComplaintById (complaints exResolvedState) 10 = Some exResolved
   \<and> c_institutionId exResolved = u_id exInstitution
   \<and> c_resolutionDate exResolved = Some 100
   \<and> (\<exists>c' ok errs s'.
        updateComplaintStatus (exEnv 200 True) exResolvedState exInstitution 10 RESOLVED None
          = (StatusUpdated c' ok errs, s')
        \<and> c_status c' = RESOLVED \<and> c_resolutionDate c' = Some 200
        \<and> findComplaintById (complaints s') 10 = Some c')"
proof -
  have h1: "u_role exInstitution = ''institution''" by (simp add: ex_defs)
  have h2: "findComplaintById (complaints exResolvedState) 10 = Some exResolved"
    by (simp add: ex_defs find_defs)
  have h3: "c_institutionId exResolved = u_id exInstitution" by (simp add: ex_defs)
  have h4: "c_resolutionDate exResolved = Some 100" by (simp add: ex_defs)
  have n: "now (exEnv 200 True) = 200" by (simp add: exEnv_def)
  from updateComplaintStatus_resolved_stamps [OF h1 h2 h3, of "exEnv 200 True" None]
  show ?thesis using h1 h2 h3 h4 n by simp
qed

text \<open>
  C2 as stated fails: the complaint resolved at instant 100 is resolved again at instant
  200, and its resolution date becomes 200.
\<close>

theorem reresolve_counterexample:
  "c_status exResolved = RESOLVED \<and> c_resolutionDate exResolved = Some 100
   \<and> findComplaintById (complaints exResolvedState) 10 = Some exResolved
   \<and> map c_resolutionDate (complaints (snd
        (updateComplaintStatus (exEnv 200 True) exResolvedState exInstitution 10 RESOLVED None)))
      = [Some 200]"
  by (simp add: ex_defs find_defs updateComplaintStatus_def Let_def)

text \<open>
  C3. The deadline update is to refuse every deadline that is not strictly after the
  clock. At a deadline equal to the clock (instant 1000) the operation accepts and stores
  it, while the deadline one millisecond earlier is refused with the message that the
  deadline must be a future date.
\<close>

theorem updateComplaintDeadline_at_now:
  "now (exEnv 1000 True) = 1000
   \<and> findOwnedComplaint (complaints exState) 10 (u_id exInstitution) = Some exComplaint
   \<and> updateComplaintDeadline (exEnv 1000 True) exState exInstitution 10 (Some 1000)
       = (DeadlineUpdated (exComplaint\<lparr>c_resolutionDeadline := 1000\<rparr>),
          exState\<lparr>complaints := [exComplaint\<lparr>c_resolutionDeadline := 1000\<rparr>]\<rparr>)
   \<and> updateComplaintDeadline (exEnv 1000 True) exState exInstitution 10 (Some 999)
       = (Failure 400 ''Invalid deadline. Deadline must be a future date'', exState)"
  by (simp add: ex_defs find_defs updateComplaintDeadline_def Let_def)

section \<open>Forwarding: results\<close>

text \<open>
  C4. Every successful forward appends exactly one forwarding record (the one of the
  response, from the acting institution to the target department), and afterwards the
  complaint is assigned to the target department with status \<open>IN_PROGRESS\<close>, whatever
  its status was before.
\<close>

theorem forwardComplaint_success:
  assumes "forwardComplaint e s u errs i dep note = (Forwarded r flag, s')"
  shows "forwardingRecords s' = forwardingRecords s @ [r]
         \<and> f_complaintId r = i \<and> f_fromInstitutionId r = u_id u \<and> f_toDepartmentId r = dep
         \<and> f_forwardingNote r = note
         \<and> (\<exists>c'. findComplaintById (complaints s') i = Some c'
                \<and> c_assignedDepartment c' = dep \<and> c_status c' = IN_PROGRESS)"
proof -
  from assms obtain c d where
    c: "findOwnedComplaint (complaints s) i (u_id u) = Some c" and
    d: "findDepartmentById (departments s) dep = Some d" and
    same: "d_district d = c_district c" and
    ok: "errs = []" "\<not> throws e FindComplaint" "\<not> throws e FindDepartment"
        "\<not> throws e SaveRecord" "\<not> throws e SaveComplaint" "\<not> throws e Populate"
    by (auto simp: forwardComplaint_def forwardingError_def Let_def
        split: if_splits option.splits)
  from c have cid: "c_id c = i" and cin: "c \<in> set (complaints s)"
    by (simp_all add: findOwned_id)
  from d have did: "d_id d = dep" by (simp add: findDept_id)
  from cin cid obtain c0 where c0: "findComplaintById (complaints s) i = Some c0"
    using findById_exists by blast
  let ?c1 = "c\<lparr>c_assignedDepartment := dep, c_status := IN_PROGRESS\<rparr>"
  have found: "findComplaintById (saveComplaint ?c1 (complaints s)) i = Some ?c1"
    using c0 cid by (simp add: findById_save)
  from assms c d same cid did ok have
    r: "r = \<lparr> f_id = newId e, f_complaintId = i, f_fromInstitutionId = u_id u,
              f_toDepartmentId = dep, f_forwardingNote = note, f_forwardedAt = now e \<rparr>" and
    s': "s' = sendNotification e COMPLAINT_FORWARDED i
               (s\<lparr>forwardingRecords := forwardingRecords s @ [r],
                   complaints := saveComplaint ?c1 (complaints s)\<rparr>)"
    by (auto simp: forwardComplaint_def createdAt_def Let_def split: if_splits)
  have recs: "forwardingRecords s' = forwardingRecords s @ [r]"
    using s' by (simp add: sendNotification_def)
  have cs: "complaints s' = saveComplaint ?c1 (complaints s)"
    using s' by simp
  show ?thesis using recs r cs found by simp
qed

theorem forwardComplaint_success_witness:
  "c_status exResolved = RESOLVED
   \<and> forwardComplaint (exEnv 200 True) exResolvedState exInstitution [] 10 7 ''Please take over''
       = (Forwarded exForwardingRecord True,
          exResolvedState\<lparr> forwardingRecords := [exForwardingRecord],
            complaints := [exResolved\<lparr>c_assignedDepartment := 7, c_status := IN_PROGRESS\<rparr>],
            delivered := [(COMPLAINT_FORWARDED, 10)] \<rparr>)
   \<and> forwardingRecords exResolvedState = []
   \<and> findComplaintById [exResolved\<lparr>c_assignedDepartment := 7, c_status := IN_PROGRESS\<rparr>] 10
       = Some (exResolved\<lparr>c_assignedDepartment := 7, c_status := IN_PROGRESS\<rparr>)"
proof -
  have eq: "forwardComplaint (exEnv 200 True) exResolvedState exInstitution [] 10 7
              ''Please take over''
       = (Forwarded exForwardingRecord True,
          exResolvedState\<lparr> forwardingRecords := [exForwardingRecord],
            complaints := [exResolved\<lparr>c_assignedDepartment := 7, c_status := IN_PROGRESS\<rparr>],
            delivered := [(COMPLAINT_FORWARDED, 10)] \<rparr>)"
    by (simp add: ex_defs find_defs forwardComplaint_def Let_def)
  have st: "c_status exResolved = RESOLVED" by (simp add: ex_defs)
  from forwardComplaint_success [OF eq] show ?thesis using eq st
    by (simp add: ex_defs find_defs)
qed

text \<open>
  C5. For a request that passed input validation, and with both lookups answering, the
  forward checks in this order: no complaint of that id owned by the acting institution
  (whether the id is unknown or the owner is another institution) gives the one combined
  404 response; else an unknown department gives the department 404 response; else a
  department of another district gives the 400 response. The three responses are
  pairwise different, and each leaves the forwarding records and the complaints as they
  were.
\<close>

theorem forwardComplaint_preconditions:
  assumes "errs = []" and "\<not> throws e FindComplaint" and "\<not> throws e FindDepartment"
  shows "(\<not> (\<exists>c\<in>set (complaints s). c_id c = i \<and> c_institutionId c = u_id u) \<longrightarrow>
            forwardComplaint e s u errs i dep note =
              (Failure 404 ''Complaint not found or you do not have permission to forward it'', s))
       \<and> (findOwnedComplaint (complaints s) i (u_id u) \<noteq> None
            \<and> findDepartmentById (departments s) dep = None \<longrightarrow>
            forwardComplaint e s u errs i dep note =
              (Failure 404 ''District department not found'', s))
       \<and> (\<forall>c d. findOwnedComplaint (complaints s) i (u_id u) = Some c
            \<and> findDepartmentById (departments s) dep = Some d
            \<and> d_district d \<noteq> c_district c \<longrightarrow>
            forwardComplaint e s u errs i dep note =
              (Failure 400 ''Department must be in the same district as the complaint'', s))
       \<and> Failure 404 ''Complaint not found or you do not have permission to forward it''
            \<noteq> Failure 404 ''District department not found''
       \<and> Failure 404 ''Complaint not found or you do not have permission to forward it''
            \<noteq> Failure 400 ''Department must be in the same district as the complaint''
       \<and> Failure 404 ''District department not found''
            \<noteq> Failure 400 ''Department must be in the same district as the complaint''"
proof (intro conjI impI allI)
  assume "\<not> (\<exists>c\<in>set (complaints s). c_id c = i \<and> c_institutionId c = u_id u)"
  then have "findOwnedComplaint (complaints s) i (u_id u) = None"
    using findOwned_None_iff by blast
  with assms show "forwardComplaint e s u errs i dep note =
      (Failure 404 ''Complaint not found or you do not have permission to forward it'', s)"
    by (simp add: forwardComplaint_def)
next
  assume "findOwnedComplaint (complaints s) i (u_id u) \<noteq> None
            \<and> findDepartmentById (departments s) dep = None"
  with assms show "forwardComplaint e s u errs i dep note =
      (Failure 404 ''District department not found'', s)"
    by (auto simp: forwardComplaint_def)
next
  fix c d
  assume "findOwnedComplaint (complaints s) i (u_id u) = Some c
            \<and> findDepartmentById (departments s) dep = Some d
            \<and> d_district d \<noteq> c_district c"
  with assms show "forwardComplaint e s u errs i dep note =
      (Failure 400 ''Department must be in the same district as the complaint'', s)"
    by (simp add: forwardComplaint_def)
qed simp_all

theorem forwardComplaint_preconditions_witness:
  "forwardComplaint (exEnv 200 True) exState exInstitution [] 11 7 ''n''
     = (Failure 404 ''Complaint not found or you do not have permission to forward it'', exState)
   \<and> forwardComplaint (exEnv 200 True) exState exProvincial [] 10 7 ''n''
     = (Failure 404 ''Complaint not found or you do not have permission to forward it'', exState)
   \<and> forwardComplaint (exEnv 200 True) exState exInstitution [] 10 9 ''n''
     = (Failure 404 ''District department not found'', exState)
   \<and> forwardComplaint (exEnv 200 True) exState exInstitution [] 10 8 ''n''
     = (Failure 400 ''Department must be in the same district as the complaint'', exState)"
proof -
  have t1: "\<not> throws (exEnv 200 True) FindComplaint" by (simp add: exEnv_def)
  have t2: "\<not> throws (exEnv 200 True) FindDepartment" by (simp add: exEnv_def)
  have a1: "\<not> (\<exists>c\<in>set (complaints exState). c_id c = 11 \<and> c_institutionId c = u_id exInstitution)"
    by (simp add: ex_defs)
  have a2: "\<not> (\<exists>c\<in>set (complaints exState). c_id c = 10 \<and> c_institutionId c = u_id exProvincial)"
    by (simp add: ex_defs)
  have own: "findOwnedComplaint (complaints exState) 10 (u_id exInstitution) = Some exComplaint"
    by (simp add: ex_defs find_defs)
  have nodep: "findDepartmentById (departments exState) 9 = None"
    by (simp add: ex_defs find_defs)
  have far: "findDepartmentById (departments exState) 8 = Some exFarDepartment"
    by (simp add: ex_defs find_defs)
  have diff: "d_district exFarDepartment \<noteq> c_district exComplaint"
    by (simp add: ex_defs)
  note p = forwardComplaint_preconditions [OF refl t1 t2, of exState]
  note p1 = p [THEN conjunct1, rule_format]
  note p2 = p [THEN conjunct2, THEN conjunct1, rule_format]
  note p3 = p [THEN conjunct2, THEN conjunct2, THEN conjunct1, rule_format]
  have r1: "forwardComplaint (exEnv 200 True) exState exInstitution [] 11 7 ''n''
     = (Failure 404 ''Complaint not found or you do not have permission to forward it'', exState)"
    using a1 by (rule p1)
  have r2: "forwardComplaint (exEnv 200 True) exState exProvincial [] 10 7 ''n''
     = (Failure 404 ''Complaint not found or you do not have permission to forward it'', exState)"
    using a2 by (rule p1)
  have r3: "forwardComplaint (exEnv 200 True) exState exInstitution [] 10 9 ''n''
     = (Failure 404 ''District department not found'', exState)"
    by (rule p2) (simp only: own nodep, simp)
  have r4: "forwardComplaint (exEnv 200 True) exState exInstitution [] 10 8 ''n''
     = (Failure 400 ''Department must be in the same district as the complaint'', exState)"
    by (rule p3 [of _ _ exComplaint _ exFarDepartment]) (simp only: own far diff, simp)
  show ?thesis by (intro conjI r1 r2 r3 r4)
qed

text \<open>
  C9. A failed dispatch is to be reported to the caller as a failed status flag. With
  every dispatch failing, the forward succeeds and stores its record and the complaint
  (nothing is delivered), but its response carries the flag \<open>True\<close>; the status update on
  the same complaint and with the same failing dispatch reports \<open>False\<close> and the failed
  notification.
\<close>

theorem forwardComplaint_silent_failure:
  "\<not> notifyOk (exEnv 200 False) COMPLAINT_FORWARDED
   \<and> forwardComplaint (exEnv 200 False) exState exInstitution [] 10 7 ''Please take over''
       = (Forwarded exForwardingRecord True,
          exState\<lparr> forwardingRecords := [exForwardingRecord],
            complaints := [exComplaint\<lparr>c_assignedDepartment := 7, c_status := IN_PROGRESS\<rparr>] \<rparr>)
   \<and> delivered exState = []
   \<and> fst (updateComplaintStatus (exEnv 200 False) exState exInstitution 10 RESOLVED None)
       = StatusUpdated (exComplaint\<lparr>c_status := RESOLVED, c_resolutionDate := Some 200\<rparr>)
           False [''resolved'']"
  by (simp add: ex_defs find_defs forwardComplaint_def updateComplaintStatus_def Let_def)

section \<open>Assignment: results\<close>

text \<open>
  C6. Whatever the category: when an institution of the province and district exists,
  the resolver returns one; when none exists but the province has an institution, it
  returns an institution of the province; when the province has no institution, it
  returns nothing, the submission creates no complaint, and a valid submission by a
  citizen is answered with the 404 response that no institution was found.
\<close>

theorem findAppropriateInstitution_fallback:
  "((\<exists>x\<in>set (users s). u_role x = ''institution'' \<and> u_province x = p \<and> u_district x = d) \<longrightarrow>
      (\<exists>inst. findAppropriateInstitution (users s) cat p d = Some inst \<and> inst \<in> set (users s)
         \<and> u_role inst = ''institution'' \<and> u_province inst = p \<and> u_district inst = d))
   \<and> (\<not> (\<exists>x\<in>set (users s). u_role x = ''institution'' \<and> u_province x = p \<and> u_district x = d)
      \<and> (\<exists>x\<in>set (users s). u_role x = ''institution'' \<and> u_province x = p) \<longrightarrow>
      (\<exists>inst. findAppropriateInstitution (users s) cat p d = Some inst \<and> inst \<in> set (users s)
         \<and> u_role inst = ''institution'' \<and> u_province inst = p))
   \<and> (\<not> (\<exists>x\<in>set (users s). u_role x = ''institution'' \<and> u_province x = p) \<longrightarrow>
      findAppropriateInstitution (users s) cat p d = None
      \<and> snd (submitComplaint e s reqUser errs title descr cat p d) = s
      \<and> (errs = [] \<and> u_role reqUser = ''citizen'' \<longrightarrow>
           fst (submitComplaint e s reqUser errs title descr cat p d) =
             Failure 404 ''No appropriate institution found to handle this complaint''))"
proof (intro conjI impI)
  assume "\<exists>x\<in>set (users s). u_role x = ''institution'' \<and> u_province x = p \<and> u_district x = d"
  then obtain y where
    "find (\<lambda>u. u_role u = ''institution'' \<and> u_province u = p \<and> u_district u = d) (users s)
       = Some y"
    and "y \<in> set (users s)"
    and "u_role y = ''institution'' \<and> u_province y = p \<and> u_district y = d"
    using find_Some_ex [of "users s"
        "\<lambda>u. u_role u = ''institution'' \<and> u_province u = p \<and> u_district u = d"]
    by blast
  then show "\<exists>inst. findAppropriateInstitution (users s) cat p d = Some inst
         \<and> inst \<in> set (users s)
         \<and> u_role inst = ''institution'' \<and> u_province inst = p \<and> u_district inst = d"
    by (simp add: findAppropriateInstitution_def)
next
  assume a: "\<not> (\<exists>x\<in>set (users s). u_role x = ''institution'' \<and> u_province x = p
                   \<and> u_district x = d)
      \<and> (\<exists>x\<in>set (users s). u_role x = ''institution'' \<and> u_province x = p)"
  then have none:
    "find (\<lambda>u. u_role u = ''institution'' \<and> u_province u = p \<and> u_district u = d) (users s)
       = None"
    by (auto simp: find_None_iff)
  from a obtain y where
    "find (\<lambda>u. u_role u = ''institution'' \<and> u_province u = p) (users s) = Some y"
    and "y \<in> set (users s)" and "u_role y = ''institution'' \<and> u_province y = p"
    using find_Some_ex [of "users s" "\<lambda>u. u_role u = ''institution'' \<and> u_province u = p"]
    by blast
  with none show "\<exists>inst. findAppropriateInstitution (users s) cat p d = Some inst
         \<and> inst \<in> set (users s) \<and> u_role inst = ''institution'' \<and> u_province inst = p"
    by (simp add: findAppropriateInstitution_def)
next
  assume a: "\<not> (\<exists>x\<in>set (users s). u_role x = ''institution'' \<and> u_province x = p)"
  then have
    "find (\<lambda>u. u_role u = ''institution'' \<and> u_province u = p \<and> u_district u = d) (users s)
       = None"
    and "find (\<lambda>u. u_role u = ''institution'' \<and> u_province u = p) (users s) = None"
    by (auto simp: find_None_iff)
  then show none: "findAppropriateInstitution (users s) cat p d = None"
    by (simp add: findAppropriateInstitution_def)
  then show "snd (submitComplaint e s reqUser errs title descr cat p d) = s"
    by (simp add: submitComplaint_def)
  from none show "fst (submitComplaint e s reqUser errs title descr cat p d) =
             Failure 404 ''No appropriate institution found to handle this complaint''"
    if "errs = [] \<and> u_role reqUser = ''citizen''"
    using that by (simp add: submitComplaint_def)
qed

theorem findAppropriateInstitution_fallback_witness:
  "findAppropriateInstitution (users exState) ''WATER'' ''Kigali'' ''Gasabo'' = Some exInstitution
   \<and> (\<exists>inst. findAppropriateInstitution (users exState) ''WATER'' ''Kigali'' ''Gasabo'' = Some inst
         \<and> u_district inst = ''Gasabo'')
   \<and> findAppropriateInstitution (users exState) ''WATER'' ''Kigali'' ''Nyarugenge''
       = Some exProvincial
   \<and> (\<exists>inst. findAppropriateInstitution (users exState) ''WATER'' ''Kigali'' ''Nyarugenge''
         = Some inst \<and> u_province inst = ''Kigali'')
   \<and> findAppropriateInstitution (users exState) ''WATER'' ''South'' ''Huye'' = None
   \<and> submitComplaint (exEnv 0 True) exState exCitizen [] ''No water'' ''Dry tap'' ''WATER''
        ''South'' ''Huye''
       = (Failure 404 ''No appropriate institution found to handle this complaint'', exState)"
proof -
  have h1: "\<exists>x\<in>set (users exState). u_role x = ''institution'' \<and> u_province x = ''Kigali''
              \<and> u_district x = ''Gasabo''"
    by (simp add: ex_defs)
  have h2: "\<not> (\<exists>x\<in>set (users exState). u_role x = ''institution'' \<and> u_province x = ''Kigali''
              \<and> u_district x = ''Nyarugenge'')
            \<and> (\<exists>x\<in>set (users exState). u_role x = ''institution'' \<and> u_province x = ''Kigali'')"
    by (simp add: ex_defs)
  have h3: "\<not> (\<exists>x\<in>set (users exState). u_role x = ''institution'' \<and> u_province x = ''South'')"
    by (simp add: ex_defs)
  have h4: "[] = ([]::string list) \<and> u_role exCitizen = ''citizen''"
    by (simp add: ex_defs)
  have v1: "findAppropriateInstitution (users exState) ''WATER'' ''Kigali'' ''Gasabo''
              = Some exInstitution"
    by (simp add: ex_defs findAppropriateInstitution_def)
  have v2: "findAppropriateInstitution (users exState) ''WATER'' ''Kigali'' ''Nyarugenge''
              = Some exProvincial"
    by (simp add: ex_defs findAppropriateInstitution_def)
  from h1 findAppropriateInstitution_fallback
         [where s = exState and p = "''Kigali''" and d = "''Gasabo''" and cat = "''WATER''"]
  have c1: "\<exists>inst. findAppropriateInstitution (users exState) ''WATER'' ''Kigali'' ''Gasabo''
              = Some inst \<and> u_district inst = ''Gasabo''"
    by blast
  from h2 findAppropriateInstitution_fallback
         [where s = exState and p = "''Kigali''" and d = "''Nyarugenge''" and cat = "''WATER''"]
  have c2: "\<exists>inst. findAppropriateInstitution (users exState) ''WATER'' ''Kigali'' ''Nyarugenge''
              = Some inst \<and> u_province inst = ''Kigali''"
    by blast
  from h3 h4 findAppropriateInstitution_fallback
         [where s = exState and p = "''South''" and d = "''Huye''" and cat = "''WATER''"
            and e = "exEnv 0 True" and reqUser = exCitizen and errs = "[]"
            and title = "''No water''" and descr = "''Dry tap''"]
  have c3: "findAppropriateInstitution (users exState) ''WATER'' ''South'' ''Huye'' = None
      \<and> snd (submitComplaint (exEnv 0 True) exState exCitizen [] ''No water'' ''Dry tap''
               ''WATER'' ''South'' ''Huye'') = exState
      \<and> fst (submitComplaint (exEnv 0 True) exState exCitizen [] ''No water'' ''Dry tap''
               ''WATER'' ''South'' ''Huye'')
          = Failure 404 ''No appropriate institution found to handle this complaint''"
    by blast
  then have c4: "submitComplaint (exEnv 0 True) exState exCitizen [] ''No water'' ''Dry tap''
                   ''WATER'' ''South'' ''Huye''
       = (Failure 404 ''No appropriate institution found to handle this complaint'', exState)"
    by (metis prod.collapse)
  from v1 v2 c1 c2 c3 c4 show ?thesis by blast
qed

section \<open>Deadline policy: results\<close>




section \<open>Performance report: results\<close>

text \<open>
  C8 (as amended). For every selection of complaints the report is produced (the
  division never sees a zero total, so the rate computation never fails). Every document
  of the report belongs to an institution with at least one selected complaint: its
  counters are the numbers of its selected and of its selected resolved complaints, and
  its resolution rate is the double-precision resolved / total times 100. An institution
  has a document (one for each of its user documents) exactly when it has a selected
  complaint: an institution without selected complaints is not in the report at all,
  so no rate 0 is reported for it.
\<close>

theorem getPerformance_rates:
  "\<exists>stats rows. getPerformance ar match s = Inr (stats, rows)
       \<and> (\<forall>p\<in>set rows. 0 < p_totalComplaints p
            \<and> p_totalComplaints p =
                length (filter (\<lambda>c. match c \<and> c_institutionId c = p_id p) (complaints s))
            \<and> p_resolvedComplaints p =
                length (filter (\<lambda>c. match c \<and> c_institutionId c = p_id p \<and> c_status c = RESOLVED)
                          (complaints s))
            \<and> p_resolutionRate p =
                dmul ar (ddiv ar (dbl ar (p_resolvedComplaints p)) (dbl ar (p_totalComplaints p)))
                  (dbl ar 100))
       \<and> (\<forall>i. length (filter (\<lambda>p. p_id p = i) rows) =
               (if \<exists>c\<in>set (complaints s). match c \<and> c_institutionId c = i
                then length (filter (\<lambda>u. u_id u = i) (users s)) else 0))"
proof -
  let ?docs = "map (projected ar) (lookupUnwind (users s) (groupStage (filter match (complaints s))))"
  let ?rows = "sortStage ar ?docs"
  have agg: "performanceAggregate ar match s = Inr ?rows"
    by (rule performanceAggregate_eq)
  then obtain stats where g: "getPerformance ar match s = Inr (stats, ?rows)"
    by (simp add: getPerformance_def Let_def)
  have rows: "\<forall>p\<in>set ?rows. 0 < p_totalComplaints p
            \<and> p_totalComplaints p =
                length (filter (\<lambda>c. match c \<and> c_institutionId c = p_id p) (complaints s))
            \<and> p_resolvedComplaints p =
                length (filter (\<lambda>c. match c \<and> c_institutionId c = p_id p \<and> c_status c = RESOLVED)
                          (complaints s))
            \<and> p_resolutionRate p =
                dmul ar (ddiv ar (dbl ar (p_resolvedComplaints p)) (dbl ar (p_totalComplaints p)))
                  (dbl ar 100)"
  proof
    fix p assume "p \<in> set ?rows"
    then have "p \<in> set ?docs" by (simp only: set_sortStage)
    then show "0 < p_totalComplaints p
            \<and> p_totalComplaints p =
                length (filter (\<lambda>c. match c \<and> c_institutionId c = p_id p) (complaints s))
            \<and> p_resolvedComplaints p =
                length (filter (\<lambda>c. match c \<and> c_institutionId c = p_id p \<and> c_status c = RESOLVED)
                          (complaints s))
            \<and> p_resolutionRate p =
                dmul ar (ddiv ar (dbl ar (p_resolvedComplaints p)) (dbl ar (p_totalComplaints p)))
                  (dbl ar 100)"
      by (rule row_facts)
  qed
  have count: "\<forall>i. length (filter (\<lambda>p. p_id p = i) ?rows) =
               (if \<exists>c\<in>set (complaints s). match c \<and> c_institutionId c = i
                then length (filter (\<lambda>u. u_id u = i) (users s)) else 0)"
    by (simp only: count_sortStage row_count) simp
  from g rows count show ?thesis by blast
qed

theorem getPerformance_rates_witness:
  "getPerformance exArith exWindow exReportState = Inr (exStats, [exRow])
   \<and> 0 < p_totalComplaints exRow
   \<and> p_resolutionRate exRow = 50
   \<and> length (filter (\<lambda>p. p_id p = 1) [exRow]) = 1
   \<and> length (filter (\<lambda>p. p_id p = 2) [exRow]) = 0"
proof -
  have eq: "getPerformance exArith exWindow exReportState = Inr (exStats, [exRow])"
    by (simp add: ex_defs exReportState_def exRow_def exStats_def exArith_def exWindow_def
        getPerformance_def performanceAggregate_def lookupUnwind_def groupStage_def
        projectStage_def mongoDivide_def resolvedOnTime_def sortStage_def Let_def)
  note t = getPerformance_rates [of exArith exWindow exReportState]
  from t obtain stats rows
    where g: "getPerformance exArith exWindow exReportState = Inr (stats, rows)"
      and a: "\<forall>p\<in>set rows. 0 < p_totalComplaints p
            \<and> p_resolutionRate p =
                dmul exArith (ddiv exArith (dbl exArith (p_resolvedComplaints p))
                                 (dbl exArith (p_totalComplaints p)))
                  (dbl exArith 100)"
      and c: "\<forall>i. length (filter (\<lambda>p. p_id p = i) rows) =
               (if \<exists>c\<in>set (complaints exReportState). exWindow c \<and> c_institutionId c = i
                then length (filter (\<lambda>u. u_id u = i) (users exReportState)) else 0)"
    by blast
  from g eq have rows: "rows = [exRow]" by simp
  with a have r: "0 < p_totalComplaints exRow
     \<and> p_resolutionRate exRow =
         dmul exArith (ddiv exArith (dbl exArith (p_resolvedComplaints exRow))
                          (dbl exArith (p_totalComplaints exRow)))
           (dbl exArith 100)"
    by simp
  then have r2: "p_resolutionRate exRow = 50" by (simp add: exRow_def exArith_def)
  from c rows have c1: "length (filter (\<lambda>p. p_id p = 1) [exRow]) =
               (if \<exists>c\<in>set (complaints exReportState). exWindow c \<and> c_institutionId c = 1
                then length (filter (\<lambda>u. u_id u = 1) (users exReportState)) else 0)"
    by blast
  have "(if \<exists>c\<in>set (complaints exReportState). exWindow c \<and> c_institutionId c = 1
                then length (filter (\<lambda>u. u_id u = 1) (users exReportState)) else 0) = 1"
    by (simp add: ex_defs exReportState_def exWindow_def)
  with c1 have k1: "length (filter (\<lambda>p. p_id p = 1) [exRow]) = 1" by simp
  from c rows have c2: "length (filter (\<lambda>p. p_id p = 2) [exRow]) =
               (if \<exists>c\<in>set (complaints exReportState). exWindow c \<and> c_institutionId c = 2
                then length (filter (\<lambda>u. u_id u = 2) (users exReportState)) else 0)"
    by blast
  have "(if \<exists>c\<in>set (complaints exReportState). exWindow c \<and> c_institutionId c = 2
                then length (filter (\<lambda>u. u_id u = 2) (users exReportState)) else 0) = 0"
    by (simp add: ex_defs exReportState_def exWindow_def)
  with c2 have k2: "length (filter (\<lambda>p. p_id p = 2) [exRow]) = 0" by simp
  from eq r r2 k1 k2 show ?thesis by blast
qed

text \<open>
  C8 as stated fails: the second institution is in the store and has no complaint in the
  window (total 0), and the report, which is produced, has the one document of the first
  institution and none for the second: no resolution rate 0 is reported for it.
\<close>

theorem getPerformance_zero_counterexample:
  "u_role exProvincial = ''institution'' \<and> u_id exProvincial = 2
   \<and> users exReportState = [exCitizen, exProvincial, exInstitution]
   \<and> map c_institutionId (complaints exReportState) = [1, 1]
   \<and> getPerformance exArith exWindow exReportState = Inr (exStats, [exRow])
   \<and> p_id exRow = 1"
  by (simp add: ex_defs exReportState_def exRow_def exStats_def exArith_def exWindow_def
      getPerformance_def performanceAggregate_def lookupUnwind_def groupStage_def
      projectStage_def mongoDivide_def resolvedOnTime_def sortStage_def Let_def)

section \<open>Deadline through the status update: results\<close>

text \<open>
  C10. A status update by the owning institution that carries a resolution deadline
  succeeds and stores that deadline for every instant, with no comparison to the clock;
  a deadline before the clock, which the deadline update refuses, is stored this way.
\<close>

theorem updateComplaintStatus_deadline_unchecked:
  assumes "u_role u = ''institution''"
    and "findComplaintById (complaints s) i = Some c"
    and "c_institutionId c = u_id u"
  shows "(\<exists>c' ok errs s'.
           updateComplaintStatus e s u i st (Some d) = (StatusUpdated c' ok errs, s')
           \<and> c_resolutionDeadline c' = d
           \<and> findComplaintById (complaints s') i = Some c')
         \<and> (d < now e \<longrightarrow> fst (updateComplaintDeadline e s u i (Some d))
               = Failure 400 ''Invalid deadline. Deadline must be a future date'')"
proof -
  from assms(2) have cid: "c_id c = i" by (simp add: findById_id)
  have a: "\<exists>c' ok errs s'.
           updateComplaintStatus e s u i st (Some d) = (StatusUpdated c' ok errs, s')
           \<and> c_resolutionDeadline c' = d
           \<and> findComplaintById (complaints s') i = Some c'"
    using assms cid
    by (simp add: updateComplaintStatus_def Let_def findById_save)
  have b: "d < now e \<longrightarrow> fst (updateComplaintDeadline e s u i (Some d))
               = Failure 400 ''Invalid deadline. Deadline must be a future date''"
    by (simp add: updateComplaintDeadline_def)
  from a b show ?thesis by blast
qed

theorem updateComplaintStatus_deadline_unchecked_witness:
  "u_role exInstitution = ''institution''
   \<and> findComplaintById (complaints exState) 10 = Some exComplaint
   \<and> c_institutionId exComplaint = u_id exInstitution
   \<and> (5::int) < now (exEnv 1000 True)
   \<and> (\<exists>c' ok errs s'.
        updateComplaintStatus (exEnv 1000 True) exState exInstitution 10 IN_PROGRESS (Some 5)
          = (StatusUpdated c' ok errs, s')
        \<and> c_resolutionDeadline c' = 5
        \<and> findComplaintById (complaints s') 10 = Some c')
   \<and> fst (updateComplaintDeadline (exEnv 1000 True) exState exInstitution 10 (Some 5))
        = Failure 400 ''Invalid deadline. Deadline must be a future date''"
proof -
  have h1: "u_role exInstitution = ''institution''" by (simp add: ex_defs)
  have h2: "findComplaintById (complaints exState) 10 = Some exComplaint"
    by (simp add: ex_defs find_defs)
  have h3: "c_institutionId exComplaint = u_id exInstitution" by (simp add: ex_defs)
  have h4: "(5::int) < now (exEnv 1000 True)" by (simp add: exEnv_def)
  from updateComplaintStatus_deadline_unchecked
         [OF h1 h2 h3, of "exEnv 1000 True" IN_PROGRESS 5]
  show ?thesis using h1 h2 h3 h4 by simp
qed

end
